theory Spec2Isabelle
  imports Complex_Main
begin

section \<open>Values carried by a request\<close>

text \<open>
  A request body is the JSON object parsed by \<^verbatim>\<open>express.json()\<close>; a field that is not
  there reads as \<^verbatim>\<open>undefined\<close>. The model covers the scalar JSON values. A JSON number
  is a decimal literal: \<open>JNum m k\<close> stands for \<open>m / 10 ^ k\<close>, taken exactly (the rounding
  of IEEE doubles is not modelled). Strings are byte strings. Array- and object-valued
  fields are not part of the model.
\<close>

datatype jsvalue = JUndefined | JNull | JBool bool | JNum int nat | JStr string

datatype jsnumber = NaN | PosInfinity | NegInfinity | Fin rat

subsection \<open>Characters and digit strings\<close>

definition isDigit :: "char \<Rightarrow> bool" where
  "isDigit c = (c \<in> set ''0123456789'')"

definition isHexDigit :: "char \<Rightarrow> bool" where
  "isHexDigit c = (c \<in> set ''0123456789abcdefABCDEF'')"

definition isOctalDigit :: "char \<Rightarrow> bool" where
  "isOctalDigit c = (c \<in> set ''01234567'')"

definition isBinaryDigit :: "char \<Rightarrow> bool" where
  "isBinaryDigit c = (c \<in> set ''01'')"

definition indexOf :: "char \<Rightarrow> string \<Rightarrow> nat" where
  "indexOf c cs = length (takeWhile (\<lambda>d. d \<noteq> c) cs)"

definition digitVal :: "char \<Rightarrow> nat" where
  "digitVal c =
     (if indexOf c ''0123456789abcdef'' < 16 then indexOf c ''0123456789abcdef''
      else indexOf c ''0123456789ABCDEF'')"

definition natOfDigits :: "nat \<Rightarrow> string \<Rightarrow> nat" where
  "natOfDigits base ds = foldl (\<lambda>a c. base * a + digitVal c) 0 ds"

definition digitChar :: "nat \<Rightarrow> char" where
  "digitChar n = ''0123456789'' ! (n mod 10)"

fun decimalDigits :: "nat \<Rightarrow> string" where
  "decimalDigits n =
     (if n < 10 then [digitChar n] else decimalDigits (n div 10) @ [digitChar (n mod 10)])"

declare decimalDigits.simps [simp del]

definition isWhiteSpace :: "char \<Rightarrow> bool" where
  "isWhiteSpace c = (c \<in> set [CHR 0x09, CHR 0x0A, CHR 0x0B, CHR 0x0C, CHR 0x0D, CHR 0x20])"

definition trim :: "string \<Rightarrow> string" where
  "trim s = rev (dropWhile isWhiteSpace (rev (dropWhile isWhiteSpace s)))"

subsection \<open>JavaScript conversions: \<^verbatim>\<open>Number(v)\<close> and \<^verbatim>\<open>String(v)\<close>\<close>

text \<open>
  \<^verbatim>\<open>StringToNumber\<close> of ECMAScript: the string is trimmed; the empty string is 0; then
  come the literals \<^verbatim>\<open>0x..\<close>, \<^verbatim>\<open>0o..\<close>, \<^verbatim>\<open>0b..\<close> (unsigned), and the signed decimal
  literals with an optional fraction and exponent, and \<^verbatim>\<open>Infinity\<close>. Anything else is
  \<^verbatim>\<open>NaN\<close>. The whitespace trimmed is the ASCII whitespace.
\<close>

definition scale10 :: "rat \<Rightarrow> int \<Rightarrow> rat" where
  "scale10 q e = (if 0 \<le> e then q * 10 ^ nat e else q / 10 ^ nat (- e))"

definition exponentPart :: "string \<Rightarrow> int option" where
  "exponentPart r =
     (case r of
        [] \<Rightarrow> Some 0
      | c # e \<Rightarrow>
          if c = CHR ''e'' \<or> c = CHR ''E'' then
            (let neg = (e \<noteq> [] \<and> hd e = CHR ''-'');
                 ds = (if e \<noteq> [] \<and> (hd e = CHR ''-'' \<or> hd e = CHR ''+'') then tl e else e)
             in if ds \<noteq> [] \<and> list_all isDigit ds
                then Some (if neg then - int (natOfDigits 10 ds) else int (natOfDigits 10 ds))
                else None)
          else None)"

definition strUnsignedDecimalLiteral :: "string \<Rightarrow> jsnumber" where
  "strUnsignedDecimalLiteral u =
     (if u = ''Infinity'' then PosInfinity
      else
        let ip = takeWhile isDigit u;
            r1 = dropWhile isDigit u;
            dot = (r1 \<noteq> [] \<and> hd r1 = CHR ''.'');
            fp = (if dot then takeWhile isDigit (tl r1) else []);
            r2 = (if dot then dropWhile isDigit (tl r1) else r1)
        in if ip = [] \<and> fp = [] then NaN
           else (case exponentPart r2 of
                   None \<Rightarrow> NaN
                 | Some e \<Rightarrow>
                     Fin (scale10 (of_nat (natOfDigits 10 (ip @ fp)) / 10 ^ length fp) e)))"

definition nonDecimalIntegerLiteral :: "string \<Rightarrow> jsnumber option" where
  "nonDecimalIntegerLiteral t =
     (case t of
        z # x # ds \<Rightarrow>
          if z = CHR ''0'' \<and> ds \<noteq> [] then
            (if (x = CHR ''x'' \<or> x = CHR ''X'') \<and> list_all isHexDigit ds
               then Some (Fin (of_nat (natOfDigits 16 ds)))
             else if (x = CHR ''o'' \<or> x = CHR ''O'') \<and> list_all isOctalDigit ds
               then Some (Fin (of_nat (natOfDigits 8 ds)))
             else if (x = CHR ''b'' \<or> x = CHR ''B'') \<and> list_all isBinaryDigit ds
               then Some (Fin (of_nat (natOfDigits 2 ds)))
             else None)
          else None
      | _ \<Rightarrow> None)"

definition negate :: "jsnumber \<Rightarrow> jsnumber" where
  "negate x =
     (case x of NaN \<Rightarrow> NaN | PosInfinity \<Rightarrow> NegInfinity | NegInfinity \<Rightarrow> PosInfinity
      | Fin q \<Rightarrow> Fin (- q))"

definition stringToNumber :: "string \<Rightarrow> jsnumber" where
  "stringToNumber s =
     (let t = trim s in
      if t = [] then Fin 0
      else (case nonDecimalIntegerLiteral t of
              Some x \<Rightarrow> x
            | None \<Rightarrow>
                if hd t = CHR ''+'' then strUnsignedDecimalLiteral (tl t)
                else if hd t = CHR ''-'' then negate (strUnsignedDecimalLiteral (tl t))
                else strUnsignedDecimalLiteral t))"

definition toNumber :: "jsvalue \<Rightarrow> jsnumber" where
  "toNumber v =
     (case v of
        JUndefined \<Rightarrow> NaN
      | JNull \<Rightarrow> Fin 0
      | JBool b \<Rightarrow> Fin (if b then 1 else 0)
      | JNum m k \<Rightarrow> Fin (of_int m / 10 ^ k)
      | JStr s \<Rightarrow> stringToNumber s)"

text \<open>
  \<^verbatim>\<open>Number::toString\<close> of ECMAScript on the decimal \<open>m / 10 ^ k\<close>: plain notation when the
  decimal point lies within 21 digits to the right or 6 zeros to the left of the first
  digit, exponent notation otherwise.
\<close>

fun stripZeros :: "int \<Rightarrow> nat \<Rightarrow> int \<times> nat" where
  "stripZeros m 0 = (m, 0)"
| "stripZeros m (Suc k) = (if m mod 10 = 0 then stripZeros (m div 10) k else (m, Suc k))"

definition exponentNotation :: "string \<Rightarrow> int \<Rightarrow> string" where
  "exponentNotation ds n =
     (let s = rev (dropWhile (\<lambda>c. c = CHR ''0'') (rev ds));
          e = n - 1;
          ex = (if 0 \<le> e then ''+'' else ''-'') @ decimalDigits (nat \<bar>e\<bar>)
      in if length s = 1 then s @ ''e'' @ ex
         else take 1 s @ ''.'' @ drop 1 s @ ''e'' @ ex)"

definition numberToString :: "int \<Rightarrow> nat \<Rightarrow> string" where
  "numberToString m k =
     (let m' = fst (stripZeros m k);
          k' = snd (stripZeros m k);
          ds = decimalDigits (nat \<bar>m'\<bar>);
          n = int (length ds) - int k'
      in if m' = 0 then ''0''
         else (if m' < 0 then ''-'' else '''') @
           (if 0 < n \<and> n \<le> 21 then
              (if k' = 0 then ds else take (nat n) ds @ ''.'' @ drop (nat n) ds)
            else if - 6 < n \<and> n \<le> 0 then ''0.'' @ replicate (nat (- n)) (CHR ''0'') @ ds
            else exponentNotation ds n))"

definition jsString :: "jsvalue \<Rightarrow> string" where
  "jsString v =
     (case v of
        JUndefined \<Rightarrow> ''undefined''
      | JNull \<Rightarrow> ''null''
      | JBool b \<Rightarrow> (if b then ''true'' else ''false'')
      | JNum m k \<Rightarrow> numberToString m k
      | JStr s \<Rightarrow> s)"

text \<open>
  The comparison \<^verbatim>\<open>value > 0\<close> of JavaScript: the value is converted to a number, and a
  comparison with \<^verbatim>\<open>NaN\<close> is false.
\<close>

definition greaterThanZero :: "jsvalue \<Rightarrow> bool" where
  "greaterThanZero v =
     (case toNumber v of
        NaN \<Rightarrow> False
      | PosInfinity \<Rightarrow> True
      | NegInfinity \<Rightarrow> False
      | Fin q \<Rightarrow> 0 < q)"

section \<open>The validation rule set\<close>

subsection \<open>Validators on strings\<close>

text \<open>
  Modelled from the spec: the validators \<^verbatim>\<open>isInt\<close>, \<^verbatim>\<open>isNumeric\<close>, \<^verbatim>\<open>notEmpty\<close>,
  \<^verbatim>\<open>isBoolean\<close> and the conversion \<^verbatim>\<open>toString\<close> belong to the express-validator
  package, which is imported by the router and is not under src/. The spec asks for an
  id that parses as an integer, a name and a price that are present and non-empty, a
  numeric price and a boolean availability; the definitions below give each check the
  meaning the package documents for its default options: a standard validator is
  applied to the string form of the field (\<^verbatim>\<open>undefined\<close> and \<^verbatim>\<open>null\<close> become the empty
  string), \<^verbatim>\<open>isInt\<close> accepts an optional sign followed by decimal digits (leading
  zeros are allowed by default), \<^verbatim>\<open>isNumeric\<close> an optional sign and digits with at
  most one decimal point followed by a digit, \<^verbatim>\<open>isEmpty\<close> the string of length 0
  (whitespace is not trimmed), and \<^verbatim>\<open>isBoolean\<close> the strings true, false, 1 and 0.
\<close>

definition hasLength :: "jsvalue \<Rightarrow> bool" where
  "hasLength v = (case v of JStr s \<Rightarrow> s \<noteq> [] | _ \<Rightarrow> False)"

definition toString :: "jsvalue \<Rightarrow> string" where
  "toString v =
     (if v = JUndefined \<or> v = JNull \<or> (toNumber v = NaN \<and> \<not> hasLength v) then []
      else jsString v)"

definition unsigned :: "string \<Rightarrow> string" where
  "unsigned s = (if s \<noteq> [] \<and> (hd s = CHR ''+'' \<or> hd s = CHR ''-'') then tl s else s)"

definition isInt :: "string \<Rightarrow> bool" where
  "isInt s = (let u = unsigned s in u \<noteq> [] \<and> list_all isDigit u)"

definition isNumeric :: "string \<Rightarrow> bool" where
  "isNumeric s =
     (let u = unsigned s;
          a = takeWhile isDigit u;
          r = dropWhile isDigit u
      in if r = [] then a \<noteq> []
         else hd r = CHR ''.'' \<and> tl r \<noteq> [] \<and> list_all isDigit (tl r))"

definition isEmpty :: "string \<Rightarrow> bool" where
  "isEmpty s = (length s = 0)"

definition isBoolean :: "string \<Rightarrow> bool" where
  "isBoolean s = (s \<in> set [''true'', ''false'', ''1'', ''0''])"

subsection \<open>Validation chains\<close>

text \<open>
  A chain selects one field of the request and runs its validations in the order of
  declaration; every validation runs, whatever the earlier ones found. A standard
  validation sees the string form of the field and may be negated (\<^verbatim>\<open>notEmpty\<close> is the
  negated \<^verbatim>\<open>isEmpty\<close>); a custom validation sees the field itself. Each failure adds
  one error, carrying the message given by \<^verbatim>\<open>withMessage\<close>.
\<close>

datatype location = Body | Params

datatype validator = IsInt | IsNumeric | IsEmpty | IsBoolean

datatype validation =
    Standard validator bool string
  | Custom "jsvalue \<Rightarrow> bool" string

datatype chain = Chain location string "validation list"

record violation =
  msg :: string
  path :: string
  location :: location
  val :: jsvalue

record request =
  params :: "(string \<times> string) list"
  body :: "(string \<times> jsvalue) list"
  errors :: "violation list"

definition selectField :: "request \<Rightarrow> location \<Rightarrow> string \<Rightarrow> jsvalue" where
  "selectField req loc p =
     (case loc of
        Body \<Rightarrow> (case map_of (body req) p of None \<Rightarrow> JUndefined | Some v \<Rightarrow> v)
      | Params \<Rightarrow> (case map_of (params req) p of None \<Rightarrow> JUndefined | Some s \<Rightarrow> JStr s))"

fun runValidator :: "validator \<Rightarrow> string \<Rightarrow> bool" where
  "runValidator IsInt s = isInt s"
| "runValidator IsNumeric s = isNumeric s"
| "runValidator IsEmpty s = isEmpty s"
| "runValidator IsBoolean s = isBoolean s"

fun failed :: "jsvalue \<Rightarrow> validation \<Rightarrow> bool" where
  "failed v (Standard f negated m) =
     (if negated then runValidator f (toString v) else \<not> runValidator f (toString v))"
| "failed v (Custom f m) = (\<not> f v)"

fun message :: "validation \<Rightarrow> string" where
  "message (Standard f negated m) = m"
| "message (Custom f m) = m"

fun runChain :: "request \<Rightarrow> chain \<Rightarrow> violation list" where
  "runChain req (Chain loc p vs) =
     map (\<lambda>x. \<lparr>msg = message x, path = p, location = loc, val = selectField req loc p\<rparr>)
       (filter (failed (selectField req loc p)) vs)"

definition validate :: "chain \<Rightarrow> request \<Rightarrow> request" where
  "validate c req = req\<lparr>errors := errors req @ runChain req c\<rparr>"

definition validationResult :: "request \<Rightarrow> violation list" where
  "validationResult req = errors req"

section \<open>The product table\<close>

text \<open>
  Modelled from the spec: the model class \<^verbatim>\<open>models/Product.model\<close> and the table behind
  it are not under src/. The spec gives the entity (an integer id generated by the
  storage layer and never reused, a text name, a numeric price, a boolean availability
  that defaults to true on creation) and the storage operations
  \<^verbatim>\<open>insert(fields) -> Product\<close>, \<^verbatim>\<open>findByKey(id) -> Product | absent\<close>,
  \<^verbatim>\<open>update(Product, fields) -> Product\<close>, \<^verbatim>\<open>delete(Product) -> void\<close> (a hard delete) and
  \<^verbatim>\<open>listAll(orderBy) -> Product[]\<close>. The table is a list of rows with the next id to
  hand out; the record of the storage calls made so far is kept beside it. The spec
  leaves open when a storage call fails; here a call fails when an argument cannot be
  converted to the type of its column: a key that is not an integer, a name that is
  missing, a price that is missing or not a number and, on update, an availability
  that is not a boolean. On creation an availability that is not a boolean counts as
  not given and takes the default. A duplicate key of the JSON body does not occur
  (the parser keeps one value for each key).
\<close>

record Product =
  product_id :: int
  name :: string
  price :: rat
  availability :: bool

datatype storage_call =
    FindAll | FindByPk string | Create | Update int | Save int | Destroy int

datatype storage_error = DatabaseError

record db =
  rows :: "Product list"
  nextId :: int
  calls :: "storage_call list"

definition intOfString :: "string \<Rightarrow> int" where
  "intOfString s =
     (if s \<noteq> [] \<and> hd s = CHR ''-'' then - int (natOfDigits 10 (tl s))
      else int (natOfDigits 10 (unsigned s)))"

definition textColumn :: "jsvalue \<Rightarrow> string option" where
  "textColumn v = (if v = JUndefined \<or> v = JNull then None else Some (jsString v))"

definition numberColumn :: "jsvalue \<Rightarrow> rat option" where
  "numberColumn v =
     (if v = JUndefined \<or> v = JNull then None
      else (case toNumber v of Fin q \<Rightarrow> Some q | _ \<Rightarrow> None))"

definition booleanColumn :: "jsvalue \<Rightarrow> bool option" where
  "booleanColumn v =
     (if toString v = ''true'' \<or> toString v = ''1'' then Some True
      else if toString v = ''false'' \<or> toString v = ''0'' then Some False
      else None)"

definition fieldOf :: "(string \<times> jsvalue) list \<Rightarrow> string \<Rightarrow> jsvalue" where
  "fieldOf b k = (case map_of b k of None \<Rightarrow> JUndefined | Some v \<Rightarrow> v)"

definition Product_findAll :: "db \<Rightarrow> storage_error + (Product list \<times> db)" where
  "Product_findAll st =
     Inr (sort_key (\<lambda>p. - price p) (rows st), st\<lparr>calls := calls st @ [FindAll]\<rparr>)"

definition Product_findByPk :: "db \<Rightarrow> jsvalue \<Rightarrow> storage_error + (Product option \<times> db)" where
  "Product_findByPk st key =
     (if isInt (toString key)
      then Inr (find (\<lambda>p. product_id p = intOfString (toString key)) (rows st),
                st\<lparr>calls := calls st @ [FindByPk (toString key)]\<rparr>)
      else Inl DatabaseError)"

definition Product_create ::
  "db \<Rightarrow> (string \<times> jsvalue) list \<Rightarrow> storage_error + (Product \<times> db)" where
  "Product_create st b =
     (case (textColumn (fieldOf b ''name''), numberColumn (fieldOf b ''price'')) of
        (Some n, Some q) \<Rightarrow>
          (let product =
                 \<lparr>product_id = nextId st, name = n, price = q,
                  availability =
                    (case booleanColumn (fieldOf b ''availability'') of
                       Some a \<Rightarrow> a | None \<Rightarrow> True)\<rparr>
           in Inr (product,
                   st\<lparr>rows := rows st @ [product], nextId := nextId st + 1,
                      calls := calls st @ [Create]\<rparr>))
      | _ \<Rightarrow> Inl DatabaseError)"

definition writeRow :: "Product \<Rightarrow> Product list \<Rightarrow> Product list" where
  "writeRow product rs = map (\<lambda>r. if product_id r = product_id product then product else r) rs"

definition Product_update ::
  "db \<Rightarrow> Product \<Rightarrow> (string \<times> jsvalue) list \<Rightarrow> storage_error + (Product \<times> db)" where
  "Product_update st product b =
     (case (textColumn (fieldOf b ''name''), numberColumn (fieldOf b ''price''),
            booleanColumn (fieldOf b ''availability'')) of
        (Some n, Some q, Some a) \<Rightarrow>
          (let product' = product\<lparr>name := n, price := q, availability := a\<rparr>
           in Inr (product',
                   st\<lparr>rows := writeRow product' (rows st),
                      calls := calls st @ [Update (product_id product)]\<rparr>))
      | _ \<Rightarrow> Inl DatabaseError)"

definition Product_save :: "db \<Rightarrow> Product \<Rightarrow> storage_error + db" where
  "Product_save st product =
     Inr (st\<lparr>rows := writeRow product (rows st),
             calls := calls st @ [Save (product_id product)]\<rparr>)"

definition Product_destroy :: "db \<Rightarrow> Product \<Rightarrow> storage_error + db" where
  "Product_destroy st product =
     Inr (st\<lparr>rows := filter (\<lambda>r. product_id r \<noteq> product_id product) (rows st),
             calls := calls st @ [Destroy (product_id product)]\<rparr>)"

section \<open>Responses, the validation gate and the handlers\<close>

datatype data = DProduct Product | DProducts "Product list" | DText string

datatype resbody = Data data | Error string | Errores "violation list"

datatype outcome = NoResponse | Response nat resbody

datatype gate = Ended outcome | Next

text \<open>
  \<^verbatim>\<open>handleInputErrors\<close> of the middleware: a request with validation errors is answered
  with status 400 and the errors, and \<^verbatim>\<open>next()\<close> is not called.
\<close>

definition handleInputErrors :: "request \<Rightarrow> gate" where
  "handleInputErrors req =
     (let errores = validationResult req
      in if errores \<noteq> [] then Ended (Response 400 (Errores errores)) else Next)"

text \<open>
  The handlers of \<^verbatim>\<open>handlers/product.ts\<close>. Each takes the table and the request and
  returns the response with the table after it. An exception of a storage call is
  caught and logged, and the request is left without a response.
\<close>

definition getProducts :: "db \<Rightarrow> request \<Rightarrow> outcome \<times> db" where
  "getProducts st req =
     (case Product_findAll st of
        Inl e \<Rightarrow> (NoResponse, st)
      | Inr (products, st1) \<Rightarrow> (Response 200 (Data (DProducts products)), st1))"

definition getProductById :: "db \<Rightarrow> request \<Rightarrow> outcome \<times> db" where
  "getProductById st req =
     (case Product_findByPk st (selectField req Params ''id'') of
        Inl e \<Rightarrow> (NoResponse, st)
      | Inr (None, st1) \<Rightarrow> (Response 404 (Error ''Producto no encontrado''), st1)
      | Inr (Some product, st1) \<Rightarrow> (Response 200 (Data (DProduct product)), st1))"

definition createProduct :: "db \<Rightarrow> request \<Rightarrow> outcome \<times> db" where
  "createProduct st req =
     (case Product_create st (body req) of
        Inl e \<Rightarrow> (NoResponse, st)
      | Inr (product, st1) \<Rightarrow> (Response 201 (Data (DProduct product)), st1))"

definition updateProduct :: "db \<Rightarrow> request \<Rightarrow> outcome \<times> db" where
  "updateProduct st req =
     (case Product_findByPk st (selectField req Params ''id'') of
        Inl e \<Rightarrow> (NoResponse, st)
      | Inr (None, st1) \<Rightarrow> (Response 404 (Error ''Producto no encontrado''), st1)
      | Inr (Some product, st1) \<Rightarrow>
          (case Product_update st1 product (body req) of
             Inl e \<Rightarrow> (NoResponse, st1)
           | Inr (product', st2) \<Rightarrow>
               (case Product_save st2 product' of
                  Inl e \<Rightarrow> (NoResponse, st2)
                | Inr st3 \<Rightarrow> (Response 200 (Data (DProduct product')), st3))))"

definition updateAvailability :: "db \<Rightarrow> request \<Rightarrow> outcome \<times> db" where
  "updateAvailability st req =
     (case Product_findByPk st (selectField req Params ''id'') of
        Inl e \<Rightarrow> (NoResponse, st)
      | Inr (None, st1) \<Rightarrow> (Response 404 (Error ''Producto no encontrado''), st1)
      | Inr (Some product, st1) \<Rightarrow>
          (let product' = product\<lparr>availability := \<not> availability product\<rparr>
           in case Product_save st1 product' of
                Inl e \<Rightarrow> (NoResponse, st1)
              | Inr st2 \<Rightarrow> (Response 200 (Data (DProduct product')), st2)))"

definition deleteProduct :: "db \<Rightarrow> request \<Rightarrow> outcome \<times> db" where
  "deleteProduct st req =
     (case Product_findByPk st (selectField req Params ''id'') of
        Inl e \<Rightarrow> (NoResponse, st)
      | Inr (None, st1) \<Rightarrow> (Response 404 (Error ''Producto no encontrado''), st1)
      | Inr (Some product, st1) \<Rightarrow>
          (case Product_destroy st1 product of
             Inl e \<Rightarrow> (NoResponse, st1)
           | Inr st2 \<Rightarrow> (Response 200 (Data (DText ''Producto eliminado'')), st2)))"

section \<open>The routing table\<close>

text \<open>
  A route is the chain of its validations, the gate and the handler, run in this order
  on a request that enters without errors.
\<close>

definition runChains :: "chain list \<Rightarrow> request \<Rightarrow> request" where
  "runChains cs req = foldl (\<lambda>r c. validate c r) req cs"

definition route ::
  "chain list \<Rightarrow> (db \<Rightarrow> request \<Rightarrow> outcome \<times> db) \<Rightarrow> db \<Rightarrow> request \<Rightarrow> outcome \<times> db" where
  "route cs handler st req =
     (let req' = runChains cs req
      in case handleInputErrors req' of
           Ended res \<Rightarrow> (res, st)
         | Next \<Rightarrow> handler st req')"

definition incoming :: "(string \<times> string) list \<Rightarrow> (string \<times> jsvalue) list \<Rightarrow> request" where
  "incoming ps b = \<lparr>params = ps, body = b, errors = []\<rparr>"

definition chains_get_id :: "chain list" where
  "chains_get_id = [Chain Params ''id'' [Standard IsInt False ''ID no valido'']]"

definition chains_post :: "chain list" where
  "chains_post =
     [Chain Body ''name''
        [Standard IsEmpty True ''El nombre del producto no puede ir vacio''],
      Chain Body ''price''
        [Standard IsNumeric False ''Valor no valido'',
         Standard IsEmpty True ''El precio del producto no puede ir vacio'',
         Custom (\<lambda>value. greaterThanZero value) ''Precio no valido'']]"

definition chains_put :: "chain list" where
  "chains_put =
     [Chain Params ''id'' [Standard IsInt False ''ID no valido''],
      Chain Body ''name''
        [Standard IsEmpty True ''El nombre del producto no puede ir vacio''],
      Chain Body ''price''
        [Standard IsNumeric False ''Valor no valido'',
         Standard IsEmpty True ''El precio del producto no puede ir vacio'',
         Custom (\<lambda>value. greaterThanZero value) ''Precio no valido''],
      Chain Body ''availability''
        [Standard IsBoolean False ''Debes de actualizar el estado del producto'']]"

definition chains_patch :: "chain list" where
  "chains_patch = [Chain Params ''id'' [Standard IsInt False ''ID no valido'']]"

definition chains_delete :: "chain list" where
  "chains_delete = [Chain Params ''id'' [Standard IsInt False ''ID no valido'']]"

definition router_get :: "db \<Rightarrow> outcome \<times> db" where
  "router_get st = getProducts st (incoming [] [])"

definition router_get_id :: "db \<Rightarrow> string \<Rightarrow> outcome \<times> db" where
  "router_get_id st i = route chains_get_id getProductById st (incoming [(''id'', i)] [])"

definition router_post :: "db \<Rightarrow> (string \<times> jsvalue) list \<Rightarrow> outcome \<times> db" where
  "router_post st b = route chains_post createProduct st (incoming [] b)"

definition router_put :: "db \<Rightarrow> string \<Rightarrow> (string \<times> jsvalue) list \<Rightarrow> outcome \<times> db" where
  "router_put st i b = route chains_put updateProduct st (incoming [(''id'', i)] b)"

definition router_patch :: "db \<Rightarrow> string \<Rightarrow> outcome \<times> db" where
  "router_patch st i = route chains_patch updateAvailability st (incoming [(''id'', i)] [])"

definition router_delete :: "db \<Rightarrow> string \<Rightarrow> outcome \<times> db" where
  "router_delete st i = route chains_delete deleteProduct st (incoming [(''id'', i)] [])"

text \<open>
  The API as a whole: one call of a route, and a sequence of calls threading the table.
\<close>

datatype api_call =
    GetProducts
  | GetProductById string
  | CreateProduct "(string \<times> jsvalue) list"
  | UpdateProduct string "(string \<times> jsvalue) list"
  | UpdateAvailability string
  | DeleteProduct string

fun router :: "db \<Rightarrow> api_call \<Rightarrow> outcome \<times> db" where
  "router st GetProducts = router_get st"
| "router st (GetProductById i) = router_get_id st i"
| "router st (CreateProduct b) = router_post st b"
| "router st (UpdateProduct i b) = router_put st i b"
| "router st (UpdateAvailability i) = router_patch st i"
| "router st (DeleteProduct i) = router_delete st i"

definition serve :: "db \<Rightarrow> api_call list \<Rightarrow> db" where
  "serve st cs = foldl (\<lambda>s c. snd (router s c)) st cs"

definition emptyTable :: db where
  "emptyTable = \<lparr>rows = [], nextId = 1, calls = []\<rparr>"

text \<open>The table after one product has been created in the empty table.\<close>

definition mouse :: Product where
  "mouse = \<lparr>product_id = 1, name = ''Mouse'', price = 50, availability = True\<rparr>"

definition sampleTable :: db where
  "sampleTable = \<lparr>rows = [mouse], nextId = 2, calls = [Create]\<rparr>"

section \<open>Vocabulary of the properties\<close>

text \<open>
  The constraints a route declares, in the order of declaration; whether a request
  violates one; and the error entry that reports it.
\<close>

fun constraintsOf :: "chain \<Rightarrow> (location \<times> string \<times> validation) list" where
  "constraintsOf (Chain loc p vs) = map (\<lambda>v. (loc, p, v)) vs"

definition constraints :: "chain list \<Rightarrow> (location \<times> string \<times> validation) list" where
  "constraints cs = concat (map constraintsOf cs)"

definition violated :: "request \<Rightarrow> location \<times> string \<times> validation \<Rightarrow> bool" where
  "violated req c = (case c of (loc, p, v) \<Rightarrow> failed (selectField req loc p) v)"

definition entryOf :: "request \<Rightarrow> location \<times> string \<times> validation \<Rightarrow> violation" where
  "entryOf req c =
     (case c of (loc, p, v) \<Rightarrow>
        \<lparr>msg = message v, path = p, location = loc, val = selectField req loc p\<rparr>)"

text \<open>The row with a given key, as the storage layer looks it up.\<close>

definition rowOf :: "db \<Rightarrow> string \<Rightarrow> Product option" where
  "rowOf st i = find (\<lambda>p. product_id p = intOfString i) (rows st)"

text \<open>A name made of whitespace only (the empty name included), and the invariant of a row.\<close>

definition blank :: "string \<Rightarrow> bool" where
  "blank s = list_all isWhiteSpace s"

definition validRow :: "Product \<Rightarrow> bool" where
  "validRow p = (0 < price p \<and> name p \<noteq> [])"

definition priceEntries :: "violation list \<Rightarrow> violation list" where
  "priceEntries es = filter (\<lambda>e. location e = Body \<and> path e = ''price'') es"

fun priceChains :: "chain list \<Rightarrow> chain list" where
  "priceChains [] = []"
| "priceChains (Chain loc p vs # cs) =
     (if loc = Body \<and> p = ''price'' then Chain loc p vs # priceChains cs else priceChains cs)"

section \<open>Facts about the validation chains\<close>

lemma selectField_errors [simp]: "selectField (req\<lparr>errors := e\<rparr>) loc p = selectField req loc p"
  by (cases loc) (simp_all add: selectField_def)

lemma runChain_errors [simp]: "runChain (req\<lparr>errors := e\<rparr>) = runChain req"
proof
  fix c show "runChain (req\<lparr>errors := e\<rparr>) c = runChain req c"
    by (cases c) simp
qed

text \<open>The validations only add errors; they read the parameters and the body alone.\<close>

lemma runChains_eq:
  "runChains cs req = req\<lparr>errors := errors req @ concat (map (runChain req) cs)\<rparr>"
proof (induction cs arbitrary: req)
  case Nil
  show ?case by (simp add: runChains_def)
next
  case (Cons c cs)
  have "runChains (c # cs) req = runChains cs (validate c req)"
    by (simp add: runChains_def)
  also have "\<dots> = (validate c req)\<lparr>errors :=
      errors (validate c req) @ concat (map (runChain (validate c req)) cs)\<rparr>"
    by (rule Cons.IH)
  also have "\<dots> = req\<lparr>errors := errors req @ concat (map (runChain req) (c # cs))\<rparr>"
    by (simp add: validate_def)
  finally show ?case .
qed

lemma validationResult_incoming:
  "validationResult (runChains cs (incoming ps b)) = concat (map (runChain (incoming ps b)) cs)"
  by (simp add: runChains_eq validationResult_def incoming_def)

lemma runChains_incoming_valid:
  "validationResult (runChains cs (incoming ps b)) = [] \<Longrightarrow>
   runChains cs (incoming ps b) = incoming ps b"
  by (simp add: runChains_eq validationResult_def incoming_def)

lemma route_incoming:
  "route cs handler st (incoming ps b) =
     (if validationResult (runChains cs (incoming ps b)) \<noteq> []
      then (Response 400 (Errores (validationResult (runChains cs (incoming ps b)))), st)
      else handler st (incoming ps b))"
proof (cases "validationResult (runChains cs (incoming ps b)) = []")
  case True
  then show ?thesis
    by (simp add: route_def handleInputErrors_def runChains_incoming_valid)
      (simp add: validationResult_def incoming_def)
next
  case False
  then show ?thesis
    by (simp add: route_def handleInputErrors_def)
qed

lemma runChain_constraints:
  "runChain req c = map (entryOf req) (filter (violated req) (constraintsOf c))"
  by (cases c) (simp add: filter_map comp_def entryOf_def violated_def)

lemma validationResult_constraints:
  "validationResult (runChains cs (incoming ps b)) =
     map (entryOf (incoming ps b)) (filter (violated (incoming ps b)) (constraints cs))"
  by (induction cs) (simp_all add: validationResult_incoming constraints_def runChain_constraints)

lemma selectField_body: "selectField (incoming ps b) Body p = fieldOf b p"
  by (simp add: selectField_def incoming_def fieldOf_def)

lemma selectField_params:
  "selectField (incoming [(''id'', i)] b) Params ''id'' = JStr i"
  by (simp add: selectField_def incoming_def)

subsection \<open>The validators at the values the properties name\<close>

lemma toString_JUndefined: "toString JUndefined = []"
  by (simp add: toString_def)

lemma toString_JStr: "toString (JStr s) = s"
  by (cases "s = []") (simp_all add: toString_def hasLength_def jsString_def)

lemma isEmpty_iff: "isEmpty s = (s = [])"
  by (simp add: isEmpty_def)

lemma isNumeric_Nil: "\<not> isNumeric []"
  by (simp add: isNumeric_def unsigned_def)

lemma isBoolean_Nil: "\<not> isBoolean []"
  by (simp add: isBoolean_def)

lemma greaterThanZero_JUndefined: "\<not> greaterThanZero JUndefined"
  by (simp add: greaterThanZero_def toNumber_def)

lemma isNumeric_hola: "\<not> isNumeric ''hola''"
  by (simp add: isNumeric_def unsigned_def isDigit_def)

lemma greaterThanZero_hola: "\<not> greaterThanZero (JStr ''hola'')"
  by (simp add: greaterThanZero_def toNumber_def stringToNumber_def trim_def isWhiteSpace_def
      nonDecimalIntegerLiteral_def strUnsignedDecimalLiteral_def isDigit_def)

lemma isInt_1: "isInt ''1''"
  by (simp add: isInt_def unsigned_def isDigit_def)

subsection \<open>The errors of each route\<close>

lemma post_violations:
  "validationResult (runChains chains_post (incoming [] b)) =
     (if toString (fieldOf b ''name'') = []
      then [\<lparr>msg = ''El nombre del producto no puede ir vacio'', path = ''name'',
              location = Body, val = fieldOf b ''name''\<rparr>] else []) @
     (if \<not> isNumeric (toString (fieldOf b ''price''))
      then [\<lparr>msg = ''Valor no valido'', path = ''price'',
              location = Body, val = fieldOf b ''price''\<rparr>] else []) @
     (if toString (fieldOf b ''price'') = []
      then [\<lparr>msg = ''El precio del producto no puede ir vacio'', path = ''price'',
              location = Body, val = fieldOf b ''price''\<rparr>] else []) @
     (if \<not> greaterThanZero (fieldOf b ''price'')
      then [\<lparr>msg = ''Precio no valido'', path = ''price'',
              location = Body, val = fieldOf b ''price''\<rparr>] else [])"
  by (simp add: validationResult_incoming chains_post_def selectField_body isEmpty_iff)

lemma put_violations:
  "validationResult (runChains chains_put (incoming [(''id'', i)] b)) =
     (if \<not> isInt i
      then [\<lparr>msg = ''ID no valido'', path = ''id'', location = Params, val = JStr i\<rparr>]
      else []) @
     (if toString (fieldOf b ''name'') = []
      then [\<lparr>msg = ''El nombre del producto no puede ir vacio'', path = ''name'',
              location = Body, val = fieldOf b ''name''\<rparr>] else []) @
     (if \<not> isNumeric (toString (fieldOf b ''price''))
      then [\<lparr>msg = ''Valor no valido'', path = ''price'',
              location = Body, val = fieldOf b ''price''\<rparr>] else []) @
     (if toString (fieldOf b ''price'') = []
      then [\<lparr>msg = ''El precio del producto no puede ir vacio'', path = ''price'',
              location = Body, val = fieldOf b ''price''\<rparr>] else []) @
     (if \<not> greaterThanZero (fieldOf b ''price'')
      then [\<lparr>msg = ''Precio no valido'', path = ''price'',
              location = Body, val = fieldOf b ''price''\<rparr>] else []) @
     (if \<not> isBoolean (toString (fieldOf b ''availability''))
      then [\<lparr>msg = ''Debes de actualizar el estado del producto'', path = ''availability'',
              location = Body, val = fieldOf b ''availability''\<rparr>] else [])"
  by (simp add: validationResult_incoming chains_put_def selectField_body selectField_params
      isEmpty_iff toString_JStr)

lemma id_violations:
  "validationResult (runChains [Chain Params ''id'' [Standard IsInt False ''ID no valido'']]
       (incoming [(''id'', i)] b)) =
     (if \<not> isInt i
      then [\<lparr>msg = ''ID no valido'', path = ''id'', location = Params, val = JStr i\<rparr>]
      else [])"
  by (simp add: validationResult_incoming selectField_params toString_JStr)

section \<open>The validation gate\<close>

text \<open>
  C1. For every route (its chains and its handler), every table and every request: when
  the rule set finds violations, the response is 400 with the body \<open>Errores\<close> of exactly
  these violations and the table is returned as it was, whatever the handler is (it is
  not invoked); when it finds none, the result is the handler's, on the request as it came
  in. The violations are one entry for each declared constraint the request violates, in
  the order of declaration.
\<close>

theorem gate_contract:
  "route cs handler st (incoming ps b) =
     (if validationResult (runChains cs (incoming ps b)) \<noteq> []
      then (Response 400 (Errores (validationResult (runChains cs (incoming ps b)))), st)
      else handler st (incoming ps b))
   \<and> validationResult (runChains cs (incoming ps b)) =
       map (entryOf (incoming ps b)) (filter (violated (incoming ps b)) (constraints cs))"
  using route_incoming validationResult_constraints by blast

section \<open>Violation counts of create and replace\<close>

text \<open>
  C3. A create request whose body has neither name nor price is answered 400 with
  exactly four entries, in the order of declaration: empty name, non-numeric price,
  empty price, price not greater than 0. The table is not touched.
\<close>

theorem create_without_name_and_price:
  assumes "map_of b ''name'' = None" and "map_of b ''price'' = None"
  shows "router_post st b =
    (Response 400 (Errores
       [\<lparr>msg = ''El nombre del producto no puede ir vacio'', path = ''name'',
          location = Body, val = JUndefined\<rparr>,
        \<lparr>msg = ''Valor no valido'', path = ''price'', location = Body, val = JUndefined\<rparr>,
        \<lparr>msg = ''El precio del producto no puede ir vacio'', path = ''price'',
          location = Body, val = JUndefined\<rparr>,
        \<lparr>msg = ''Precio no valido'', path = ''price'', location = Body,
          val = JUndefined\<rparr>]), st)"
proof -
  have f: "fieldOf b ''name'' = JUndefined" "fieldOf b ''price'' = JUndefined"
    using assms by (simp_all add: fieldOf_def)
  show ?thesis
    by (simp add: router_post_def route_incoming post_violations f toString_JUndefined
        isNumeric_Nil greaterThanZero_JUndefined)
qed

theorem create_without_name_and_price_witness:
  "router_post emptyTable [] =
    (Response 400 (Errores
       [\<lparr>msg = ''El nombre del producto no puede ir vacio'', path = ''name'',
          location = Body, val = JUndefined\<rparr>,
        \<lparr>msg = ''Valor no valido'', path = ''price'', location = Body, val = JUndefined\<rparr>,
        \<lparr>msg = ''El precio del producto no puede ir vacio'', path = ''price'',
          location = Body, val = JUndefined\<rparr>,
        \<lparr>msg = ''Precio no valido'', path = ''price'', location = Body,
          val = JUndefined\<rparr>]), emptyTable)"
  using create_without_name_and_price [of "[]" emptyTable] by simp

text \<open>
  C4. A create request with a non-empty name and the price \<open>"hola"\<close> is answered 400
  with exactly two entries: the numeric check (\<open>Valor no valido\<close>) and the check
  \<open>value > 0\<close> (\<open>Precio no valido\<close>), which runs although the numeric check has failed.
\<close>

theorem create_price_hola:
  assumes "map_of b ''name'' = Some (JStr n)" and "n \<noteq> []"
    and "map_of b ''price'' = Some (JStr ''hola'')"
  shows "router_post st b =
    (Response 400 (Errores
       [\<lparr>msg = ''Valor no valido'', path = ''price'', location = Body,
          val = JStr ''hola''\<rparr>,
        \<lparr>msg = ''Precio no valido'', path = ''price'', location = Body,
          val = JStr ''hola''\<rparr>]), st)"
proof -
  have f: "fieldOf b ''name'' = JStr n" "fieldOf b ''price'' = JStr ''hola''"
    using assms by (simp_all add: fieldOf_def)
  show ?thesis
    using assms(2)
    by (simp add: router_post_def route_incoming post_violations f toString_JStr
        isNumeric_hola greaterThanZero_hola)
qed

theorem create_price_hola_witness:
  "router_post emptyTable [(''name'', JStr ''Play station 5''), (''price'', JStr ''hola'')] =
    (Response 400 (Errores
       [\<lparr>msg = ''Valor no valido'', path = ''price'', location = Body,
          val = JStr ''hola''\<rparr>,
        \<lparr>msg = ''Precio no valido'', path = ''price'', location = Body,
          val = JStr ''hola''\<rparr>]), emptyTable)"
  using create_price_hola [of "[(''name'', JStr ''Play station 5''), (''price'', JStr ''hola'')]"
      "''Play station 5''" emptyTable]
  by simp

text \<open>
  C5. A replace request with an integer id and an empty body is answered 400 with
  exactly five entries: one for the name, three for the price (non-numeric, empty, not
  greater than 0) and one for the availability.
\<close>

theorem replace_empty_body:
  assumes "isInt i"
  shows "router_put st i [] =
    (Response 400 (Errores
       [\<lparr>msg = ''El nombre del producto no puede ir vacio'', path = ''name'',
          location = Body, val = JUndefined\<rparr>,
        \<lparr>msg = ''Valor no valido'', path = ''price'', location = Body, val = JUndefined\<rparr>,
        \<lparr>msg = ''El precio del producto no puede ir vacio'', path = ''price'',
          location = Body, val = JUndefined\<rparr>,
        \<lparr>msg = ''Precio no valido'', path = ''price'', location = Body,
          val = JUndefined\<rparr>,
        \<lparr>msg = ''Debes de actualizar el estado del producto'', path = ''availability'',
          location = Body, val = JUndefined\<rparr>]), st)"
proof -
  have f: "fieldOf [] k = JUndefined" for k
    by (simp add: fieldOf_def)
  show ?thesis
    using assms
    by (simp add: router_put_def route_incoming put_violations f toString_JUndefined
        isNumeric_Nil greaterThanZero_JUndefined isBoolean_Nil)
qed

theorem replace_empty_body_witness:
  "isInt ''1'' \<and> router_put emptyTable ''1'' [] =
    (Response 400 (Errores
       [\<lparr>msg = ''El nombre del producto no puede ir vacio'', path = ''name'',
          location = Body, val = JUndefined\<rparr>,
        \<lparr>msg = ''Valor no valido'', path = ''price'', location = Body, val = JUndefined\<rparr>,
        \<lparr>msg = ''El precio del producto no puede ir vacio'', path = ''price'',
          location = Body, val = JUndefined\<rparr>,
        \<lparr>msg = ''Precio no valido'', path = ''price'', location = Body,
          val = JUndefined\<rparr>,
        \<lparr>msg = ''Debes de actualizar el estado del producto'', path = ''availability'',
          location = Body, val = JUndefined\<rparr>]), emptyTable)"
  using replace_empty_body [OF isInt_1, of emptyTable] isInt_1 by simp

section \<open>The handlers on the table\<close>

lemma findByPk_valid:
  "isInt i \<Longrightarrow>
   Product_findByPk st (JStr i) = Inr (rowOf st i, st\<lparr>calls := calls st @ [FindByPk i]\<rparr>)"
  by (simp add: Product_findByPk_def toString_JStr rowOf_def)

lemma selectField_id:
  "map_of (params req) ''id'' = Some i \<Longrightarrow> selectField req Params ''id'' = JStr i"
  by (simp add: selectField_def)

lemma rowOf_calls [simp]: "rowOf (st\<lparr>calls := c\<rparr>) i = rowOf st i"
  by (simp add: rowOf_def)

lemma isInt_2000: "isInt ''2000''"
  by (simp add: isInt_def unsigned_def isDigit_def)

lemma rowOf_sample_2000: "rowOf sampleTable ''2000'' = None"
  by (simp add: rowOf_def sampleTable_def mouse_def intOfString_def natOfDigits_def
      digitVal_def indexOf_def unsigned_def)

lemma rowOf_sample_1: "rowOf sampleTable ''1'' = Some mouse"
  by (simp add: rowOf_def sampleTable_def mouse_def intOfString_def natOfDigits_def
      digitVal_def indexOf_def unsigned_def)

text \<open>
  C2. For get-by-id, replace, toggle-availability and delete: on a request whose id is a
  validated integer and for which the table holds no row, the handler answers 404 with
  the body \<open>Error ''Producto no encontrado''\<close>; the only storage call it makes is the
  read by key, and the rows and the next id of the table are what they were.
\<close>

theorem not_found_contract:
  assumes "map_of (params req) ''id'' = Some i" and "isInt i" and "rowOf st i = None"
  shows "getProductById st req =
           (Response 404 (Error ''Producto no encontrado''),
            st\<lparr>calls := calls st @ [FindByPk i]\<rparr>)
       \<and> updateProduct st req =
           (Response 404 (Error ''Producto no encontrado''),
            st\<lparr>calls := calls st @ [FindByPk i]\<rparr>)
       \<and> updateAvailability st req =
           (Response 404 (Error ''Producto no encontrado''),
            st\<lparr>calls := calls st @ [FindByPk i]\<rparr>)
       \<and> deleteProduct st req =
           (Response 404 (Error ''Producto no encontrado''),
            st\<lparr>calls := calls st @ [FindByPk i]\<rparr>)"
  using assms
  by (simp add: getProductById_def updateProduct_def updateAvailability_def deleteProduct_def
      selectField_id findByPk_valid)

theorem not_found_witness:
  "getProductById sampleTable (incoming [(''id'', ''2000'')] []) =
     (Response 404 (Error ''Producto no encontrado''),
      \<lparr>rows = [mouse], nextId = 2, calls = [Create, FindByPk ''2000'']\<rparr>)
   \<and> updateProduct sampleTable (incoming [(''id'', ''2000'')] []) =
     (Response 404 (Error ''Producto no encontrado''),
      \<lparr>rows = [mouse], nextId = 2, calls = [Create, FindByPk ''2000'']\<rparr>)
   \<and> updateAvailability sampleTable (incoming [(''id'', ''2000'')] []) =
     (Response 404 (Error ''Producto no encontrado''),
      \<lparr>rows = [mouse], nextId = 2, calls = [Create, FindByPk ''2000'']\<rparr>)
   \<and> deleteProduct sampleTable (incoming [(''id'', ''2000'')] []) =
     (Response 404 (Error ''Producto no encontrado''),
      \<lparr>rows = [mouse], nextId = 2, calls = [Create, FindByPk ''2000'']\<rparr>)"
  using not_found_contract [of "incoming [(''id'', ''2000'')] []" "''2000''" sampleTable]
    isInt_2000 rowOf_sample_2000
  by (simp add: incoming_def sampleTable_def)

subsection \<open>The routes that take an id alone\<close>

lemma router_get_id_eq:
  "router_get_id st i =
     (if \<not> isInt i
      then (Response 400 (Errores
              [\<lparr>msg = ''ID no valido'', path = ''id'', location = Params, val = JStr i\<rparr>]), st)
      else (case rowOf st i of
              None \<Rightarrow> (Response 404 (Error ''Producto no encontrado''),
                        st\<lparr>calls := calls st @ [FindByPk i]\<rparr>)
            | Some product \<Rightarrow> (Response 200 (Data (DProduct product)),
                        st\<lparr>calls := calls st @ [FindByPk i]\<rparr>)))"
  by (simp add: router_get_id_def chains_get_id_def route_incoming id_violations
      getProductById_def selectField_params findByPk_valid split: option.splits)

lemma router_patch_eq:
  "router_patch st i =
     (if \<not> isInt i
      then (Response 400 (Errores
              [\<lparr>msg = ''ID no valido'', path = ''id'', location = Params, val = JStr i\<rparr>]), st)
      else (case rowOf st i of
              None \<Rightarrow> (Response 404 (Error ''Producto no encontrado''),
                        st\<lparr>calls := calls st @ [FindByPk i]\<rparr>)
            | Some product \<Rightarrow>
                (Response 200 (Data (DProduct (product\<lparr>availability := \<not> availability product\<rparr>))),
                 st\<lparr>rows := writeRow (product\<lparr>availability := \<not> availability product\<rparr>) (rows st),
                    calls := calls st @ [FindByPk i, Save (product_id product)]\<rparr>)))"
  by (simp add: router_patch_def chains_patch_def route_incoming id_violations
      updateAvailability_def selectField_params findByPk_valid Product_save_def Let_def
      split: option.splits)

lemma router_delete_eq:
  "router_delete st i =
     (if \<not> isInt i
      then (Response 400 (Errores
              [\<lparr>msg = ''ID no valido'', path = ''id'', location = Params, val = JStr i\<rparr>]), st)
      else (case rowOf st i of
              None \<Rightarrow> (Response 404 (Error ''Producto no encontrado''),
                        st\<lparr>calls := calls st @ [FindByPk i]\<rparr>)
            | Some product \<Rightarrow>
                (Response 200 (Data (DText ''Producto eliminado'')),
                 st\<lparr>rows := filter (\<lambda>r. product_id r \<noteq> product_id product) (rows st),
                    calls := calls st @ [FindByPk i, Destroy (product_id product)]\<rparr>)))"
  by (simp add: router_delete_def chains_delete_def route_incoming id_violations
      deleteProduct_def selectField_params findByPk_valid Product_destroy_def
      split: option.splits)


lemma find_writeRow:
  assumes "find (\<lambda>p. product_id p = k) rs = Some p" and "product_id p' = product_id p"
  shows "find (\<lambda>p. product_id p = k) (writeRow p' rs) = Some p'"
  using assms
proof (induction rs)
  case Nil
  then show ?case by simp
next
  case (Cons r rs)
  then show ?case
    by (auto simp: writeRow_def split: if_splits)
qed


lemma filter_writeRow:
  "filter (\<lambda>r. product_id r \<noteq> product_id p) (writeRow p rs) =
   filter (\<lambda>r. product_id r \<noteq> product_id p) rs"
  by (induction rs) (auto simp: writeRow_def)

section \<open>Toggle and delete\<close>

text \<open>
  C6. A toggle-availability request on the id of an existing row is answered 200 with the
  product whose availability is the negation of the stored one and whose id, name and
  price are the stored ones; this product is the row found under the id afterwards,
  and the rows with another id are what they were.
\<close>

theorem toggle_availability:
  assumes "isInt i" and "rowOf st i = Some product"
  shows "fst (router_patch st i) =
           Response 200 (Data (DProduct
             \<lparr>product_id = product_id product, name = name product, price = price product,
              availability = (\<not> availability product)\<rparr>))
       \<and> rowOf (snd (router_patch st i)) i =
           Some \<lparr>product_id = product_id product, name = name product, price = price product,
              availability = (\<not> availability product)\<rparr>
       \<and> filter (\<lambda>r. product_id r \<noteq> product_id product) (rows (snd (router_patch st i))) =
           filter (\<lambda>r. product_id r \<noteq> product_id product) (rows st)
       \<and> nextId (snd (router_patch st i)) = nextId st"
proof -
  let ?p = "product\<lparr>availability := \<not> availability product\<rparr>"
  have p: "?p = \<lparr>product_id = product_id product, name = name product, price = price product,
              availability = (\<not> availability product)\<rparr>"
    by simp
  have r: "router_patch st i =
     (Response 200 (Data (DProduct ?p)),
      st\<lparr>rows := writeRow ?p (rows st),
         calls := calls st @ [FindByPk i, Save (product_id product)]\<rparr>)"
    using assms by (simp add: router_patch_eq)
  have f: "find (\<lambda>p. product_id p = intOfString i) (writeRow ?p (rows st)) = Some ?p"
    using assms(2) by (intro find_writeRow) (simp_all add: rowOf_def)
  have g: "filter (\<lambda>r. product_id r \<noteq> product_id product) (writeRow ?p (rows st)) =
           filter (\<lambda>r. product_id r \<noteq> product_id product) (rows st)"
    using filter_writeRow [of ?p "rows st"] by simp
  show ?thesis
    unfolding r using f g by (simp add: rowOf_def)
qed

theorem toggle_witness:
  "fst (router_patch sampleTable ''1'') =
     Response 200 (Data (DProduct
       \<lparr>product_id = 1, name = ''Mouse'', price = 50, availability = False\<rparr>))
   \<and> rowOf (snd (router_patch sampleTable ''1'')) ''1'' =
     Some \<lparr>product_id = 1, name = ''Mouse'', price = 50, availability = False\<rparr>"
  using toggle_availability [OF isInt_1 rowOf_sample_1]
  by (simp add: mouse_def)




section \<open>The price chain of create and replace\<close>

text \<open>
  C10. The price chain of the replace route is the price chain of the create route (the
  same three checks, with the same messages, in the same order), and for every id and
  body the price entries among the errors of the replace route are the price entries
  among the errors of the create route.
\<close>

theorem price_chain_same:
  "priceChains chains_put = priceChains chains_post
   \<and> priceEntries (validationResult (runChains chains_put (incoming [(''id'', i)] b))) =
     priceEntries (validationResult (runChains chains_post (incoming [] b)))"
proof
  show "priceChains chains_put = priceChains chains_post"
    by (simp add: chains_put_def chains_post_def)
  show "priceEntries (validationResult (runChains chains_put (incoming [(''id'', i)] b))) =
     priceEntries (validationResult (runChains chains_post (incoming [] b)))"
    by (simp add: put_violations post_violations priceEntries_def)
qed

section \<open>What a validated request carries\<close>

subsection \<open>A numeric string is never \<^verbatim>\<open>Infinity\<close>\<close>

lemma strUnsignedDecimalLiteral_PosInfinity:
  "strUnsignedDecimalLiteral u = PosInfinity \<Longrightarrow> u = ''Infinity''"
  by (simp add: strUnsignedDecimalLiteral_def Let_def split: if_splits option.splits)

lemma strUnsignedDecimalLiteral_not_NegInfinity:
  "strUnsignedDecimalLiteral u \<noteq> NegInfinity"
  by (simp add: strUnsignedDecimalLiteral_def Let_def split: if_splits option.splits)

lemma nonDecimalIntegerLiteral_Fin:
  "nonDecimalIntegerLiteral t = Some x \<Longrightarrow> \<exists>q. x = Fin q"
  by (auto simp: nonDecimalIntegerLiteral_def split: list.splits if_splits)

lemma negate_PosInfinity: "negate x = PosInfinity \<Longrightarrow> x = NegInfinity"
  by (cases x) (simp_all add: negate_def)

lemma set_trim: "set (trim s) \<subseteq> set s"
proof
  fix c assume "c \<in> set (trim s)"
  then have "c \<in> set (dropWhile isWhiteSpace (rev (dropWhile isWhiteSpace s)))"
    by (simp add: trim_def)
  then have "c \<in> set (rev (dropWhile isWhiteSpace s))"
    by (rule set_dropWhileD)
  then have "c \<in> set (dropWhile isWhiteSpace s)"
    by simp
  then show "c \<in> set s"
    by (rule set_dropWhileD)
qed

lemma stringToNumber_PosInfinity:
  assumes "stringToNumber s = PosInfinity"
  shows "CHR ''I'' \<in> set s"
proof -
  let ?t = "trim s"
  from assms have ne: "?t \<noteq> []"
    by (auto simp: stringToNumber_def Let_def split: if_splits)
  have nd: "nonDecimalIntegerLiteral ?t = None"
  proof (cases "nonDecimalIntegerLiteral ?t")
    case None then show ?thesis .
  next
    case (Some x)
    then obtain q where "x = Fin q"
      using nonDecimalIntegerLiteral_Fin by blast
    with Some assms ne show ?thesis
      by (simp add: stringToNumber_def Let_def)
  qed
  from assms ne nd have "strUnsignedDecimalLiteral (tl ?t) = PosInfinity
      \<or> negate (strUnsignedDecimalLiteral (tl ?t)) = PosInfinity
      \<or> strUnsignedDecimalLiteral ?t = PosInfinity"
    by (simp add: stringToNumber_def Let_def split: if_splits)
  then have "tl ?t = ''Infinity'' \<or> ?t = ''Infinity''"
    using strUnsignedDecimalLiteral_PosInfinity negate_PosInfinity
      strUnsignedDecimalLiteral_not_NegInfinity by blast
  then have "CHR ''I'' \<in> set ?t"
  proof
    assume "tl ?t = ''Infinity''"
    then have "CHR ''I'' \<in> set (tl ?t)" by simp
    then show ?thesis using ne by (metis list.set_sel(2))
  next
    assume "?t = ''Infinity''"
    then show ?thesis by simp
  qed
  then show ?thesis using set_trim by blast
qed

lemma isNumeric_no_I:
  assumes "isNumeric s"
  shows "CHR ''I'' \<notin> set s"
proof
  assume I: "CHR ''I'' \<in> set s"
  let ?u = "unsigned s"
  have "CHR ''I'' \<in> set ?u"
  proof (cases "s \<noteq> [] \<and> (hd s = CHR ''+'' \<or> hd s = CHR ''-'')")
    case True
    then have "s = hd s # tl s" by simp
    then have "set s = insert (hd s) (set (tl s))" by (metis list.simps(15))
    with I True show ?thesis by (auto simp: unsigned_def)
  next
    case False
    with I show ?thesis by (auto simp: unsigned_def)
  qed
  then have "CHR ''I'' \<in> set (takeWhile isDigit ?u) \<union> set (dropWhile isDigit ?u)"
    by (metis set_append takeWhile_dropWhile_id)
  then show False
  proof
    assume "CHR ''I'' \<in> set (takeWhile isDigit ?u)"
    then have "isDigit (CHR ''I'')" by (rule set_takeWhileD [THEN conjunct2])
    then show False by (simp add: isDigit_def)
  next
    assume d: "CHR ''I'' \<in> set (dropWhile isDigit ?u)"
    then have ne: "dropWhile isDigit ?u \<noteq> []" by (metis empty_iff empty_set)
    with assms have h: "hd (dropWhile isDigit ?u) = CHR ''.''"
      and t: "list_all isDigit (tl (dropWhile isDigit ?u))"
      by (simp_all add: isNumeric_def Let_def)
    from ne have "dropWhile isDigit ?u = hd (dropWhile isDigit ?u) # tl (dropWhile isDigit ?u)"
      by simp
    then have "set (dropWhile isDigit ?u) =
        insert (hd (dropWhile isDigit ?u)) (set (tl (dropWhile isDigit ?u)))"
      by (metis list.simps(15))
    with d h have "CHR ''I'' \<in> set (tl (dropWhile isDigit ?u))" by simp
    with t have "isDigit (CHR ''I'')" by (simp add: list_all_iff)
    then show False by (simp add: isDigit_def)
  qed
qed

subsection \<open>The columns of a validated body\<close>

lemma toString_nonempty:
  assumes "toString v \<noteq> []"
  shows "v \<noteq> JUndefined" and "v \<noteq> JNull" and "jsString v = toString v"
  using assms by (auto simp: toString_def split: if_splits)

lemma price_valid_Fin:
  assumes "isNumeric (toString v)" and "greaterThanZero v"
  shows "\<exists>q. toNumber v = Fin q \<and> 0 < q"
proof (cases "toNumber v")
  case NaN
  with assms(2) show ?thesis by (simp add: greaterThanZero_def)
next
  case PosInfinity
  then obtain s where v: "v = JStr s"
    by (cases v) (simp_all add: toNumber_def)
  with PosInfinity have "CHR ''I'' \<in> set s"
    by (simp add: toNumber_def stringToNumber_PosInfinity)
  moreover from assms(1) v have "CHR ''I'' \<notin> set s"
    by (simp add: toString_JStr isNumeric_no_I)
  ultimately show ?thesis by simp
next
  case NegInfinity
  with assms(2) show ?thesis by (simp add: greaterThanZero_def)
next
  case (Fin q)
  with assms(2) show ?thesis by (simp add: greaterThanZero_def)
qed

lemma post_valid_iff:
  "validationResult (runChains chains_post (incoming [] b)) = [] \<longleftrightarrow>
     toString (fieldOf b ''name'') \<noteq> [] \<and> isNumeric (toString (fieldOf b ''price''))
     \<and> toString (fieldOf b ''price'') \<noteq> [] \<and> greaterThanZero (fieldOf b ''price'')"
  by (simp add: post_violations)

lemma put_valid_iff:
  "validationResult (runChains chains_put (incoming [(''id'', i)] b)) = [] \<longleftrightarrow>
     isInt i \<and> toString (fieldOf b ''name'') \<noteq> [] \<and> isNumeric (toString (fieldOf b ''price''))
     \<and> toString (fieldOf b ''price'') \<noteq> [] \<and> greaterThanZero (fieldOf b ''price'')
     \<and> isBoolean (toString (fieldOf b ''availability''))"
  by (simp add: put_violations)

lemma columns_valid:
  assumes "toString n \<noteq> []" and "isNumeric (toString p)" and "greaterThanZero p"
  shows "\<exists>q. textColumn n = Some (jsString n) \<and> jsString n \<noteq> []
            \<and> numberColumn p = Some q \<and> toNumber p = Fin q \<and> 0 < q"
proof -
  from assms(2,3) obtain q where q: "toNumber p = Fin q" "0 < q"
    using price_valid_Fin by blast
  from assms(2) have "toString p \<noteq> []"
    using isNumeric_Nil by auto
  then have "p \<noteq> JUndefined" "p \<noteq> JNull"
    using toString_nonempty by auto
  with q have "numberColumn p = Some q"
    by (simp add: numberColumn_def)
  moreover from assms(1) have "textColumn n = Some (jsString n)" "jsString n \<noteq> []"
    using toString_nonempty [of n] by (simp_all add: textColumn_def)
  ultimately show ?thesis using q by blast
qed

lemma booleanColumn_valid:
  "isBoolean (toString v) \<Longrightarrow> \<exists>a. booleanColumn v = Some a"
  by (auto simp: isBoolean_def booleanColumn_def)



lemma body_incoming: "body (incoming ps b) = b"
  by (simp add: incoming_def)

subsection \<open>Create and replace on a validated body\<close>

lemma router_post_valid:
  assumes "validationResult (runChains chains_post (incoming [] b)) = []"
  shows "\<exists>q. toNumber (fieldOf b ''price'') = Fin q \<and> 0 < q
           \<and> jsString (fieldOf b ''name'') \<noteq> []
           \<and> router_post st b =
               (Response 201 (Data (DProduct
                  \<lparr>product_id = nextId st, name = jsString (fieldOf b ''name''), price = q,
                   availability = (case booleanColumn (fieldOf b ''availability'') of
                                     Some a \<Rightarrow> a | None \<Rightarrow> True)\<rparr>)),
                st\<lparr>rows := rows st @
                   [\<lparr>product_id = nextId st, name = jsString (fieldOf b ''name''), price = q,
                     availability = (case booleanColumn (fieldOf b ''availability'') of
                                       Some a \<Rightarrow> a | None \<Rightarrow> True)\<rparr>],
                   nextId := nextId st + 1, calls := calls st @ [Create]\<rparr>)"
proof -
  from assms have v: "toString (fieldOf b ''name'') \<noteq> []"
      "isNumeric (toString (fieldOf b ''price''))" "greaterThanZero (fieldOf b ''price'')"
    by (simp_all add: post_valid_iff)
  then obtain q where q: "textColumn (fieldOf b ''name'') = Some (jsString (fieldOf b ''name''))"
      "jsString (fieldOf b ''name'') \<noteq> []" "numberColumn (fieldOf b ''price'') = Some q"
      "toNumber (fieldOf b ''price'') = Fin q" "0 < q"
    using columns_valid by blast
  have "router_post st b = createProduct st (incoming [] b)"
    using assms by (simp add: router_post_def route_incoming)
  then show ?thesis
    using q by (simp add: createProduct_def Product_create_def body_incoming Let_def)
qed

lemma router_put_valid:
  assumes "validationResult (runChains chains_put (incoming [(''id'', i)] b)) = []"
  shows "\<exists>q a. toNumber (fieldOf b ''price'') = Fin q \<and> 0 < q
           \<and> jsString (fieldOf b ''name'') \<noteq> []
           \<and> booleanColumn (fieldOf b ''availability'') = Some a
           \<and> router_put st i b =
               (case rowOf st i of
                  None \<Rightarrow> (Response 404 (Error ''Producto no encontrado''),
                            st\<lparr>calls := calls st @ [FindByPk i]\<rparr>)
                | Some product \<Rightarrow>
                    (Response 200 (Data (DProduct
                       (product\<lparr>name := jsString (fieldOf b ''name''), price := q,
                          availability := a\<rparr>))),
                     st\<lparr>rows := writeRow
                          (product\<lparr>name := jsString (fieldOf b ''name''), price := q,
                             availability := a\<rparr>)
                          (writeRow
                             (product\<lparr>name := jsString (fieldOf b ''name''), price := q,
                                availability := a\<rparr>) (rows st)),
                        calls := calls st @
                          [FindByPk i, Update (product_id product), Save (product_id product)]\<rparr>))"
proof -
  from assms have v: "isInt i" "toString (fieldOf b ''name'') \<noteq> []"
      "isNumeric (toString (fieldOf b ''price''))" "greaterThanZero (fieldOf b ''price'')"
      "isBoolean (toString (fieldOf b ''availability''))"
    by (simp_all add: put_valid_iff)
  then obtain q where q: "textColumn (fieldOf b ''name'') = Some (jsString (fieldOf b ''name''))"
      "jsString (fieldOf b ''name'') \<noteq> []" "numberColumn (fieldOf b ''price'') = Some q"
      "toNumber (fieldOf b ''price'') = Fin q" "0 < q"
    using columns_valid by blast
  from v(5) obtain a where a: "booleanColumn (fieldOf b ''availability'') = Some a"
    using booleanColumn_valid by blast
  have "router_put st i b = updateProduct st (incoming [(''id'', i)] b)"
    using assms by (simp add: router_put_def route_incoming)
  then have "router_put st i b =
               (case rowOf st i of
                  None \<Rightarrow> (Response 404 (Error ''Producto no encontrado''),
                            st\<lparr>calls := calls st @ [FindByPk i]\<rparr>)
                | Some product \<Rightarrow>
                    (Response 200 (Data (DProduct
                       (product\<lparr>name := jsString (fieldOf b ''name''), price := q,
                          availability := a\<rparr>))),
                     st\<lparr>rows := writeRow
                          (product\<lparr>name := jsString (fieldOf b ''name''), price := q,
                             availability := a\<rparr>)
                          (writeRow
                             (product\<lparr>name := jsString (fieldOf b ''name''), price := q,
                                availability := a\<rparr>) (rows st)),
                        calls := calls st @
                          [FindByPk i, Update (product_id product), Save (product_id product)]\<rparr>))"
    using v(1) q a
    by (simp add: updateProduct_def selectField_params findByPk_valid Product_update_def
        Product_save_def body_incoming Let_def split: option.splits)
  with q a show ?thesis by blast
qed





section \<open>Creation\<close>



section \<open>The invariant of the rows\<close>

lemma validRow_writeRow:
  "list_all validRow rs \<Longrightarrow> validRow p \<Longrightarrow> list_all validRow (writeRow p rs)"
  by (induction rs) (simp_all add: writeRow_def)

lemma rowOf_in_rows: "rowOf st i = Some p \<Longrightarrow> p \<in> set (rows st)"
  by (auto simp: rowOf_def find_Some_iff)

lemma validRow_rowOf: "list_all validRow (rows st) \<Longrightarrow> rowOf st i = Some p \<Longrightarrow> validRow p"
  using rowOf_in_rows by (fastforce simp: list_all_iff)

lemma router_get_rows: "rows (snd (router_get st)) = rows st"
  by (simp add: router_get_def getProducts_def Product_findAll_def)

lemma router_get_id_rows: "rows (snd (router_get_id st i)) = rows st"
  by (simp add: router_get_id_eq split: option.splits)

lemma router_post_validRow:
  assumes "list_all validRow (rows st)"
  shows "list_all validRow (rows (snd (router_post st b)))"
proof (cases "validationResult (runChains chains_post (incoming [] b)) = []")
  case True
  from router_post_valid [OF True, of st] show ?thesis
    using assms by (auto simp: validRow_def)
next
  case False
  then show ?thesis
    using assms by (simp add: router_post_def route_incoming)
qed

lemma router_put_validRow:
  assumes "list_all validRow (rows st)"
  shows "list_all validRow (rows (snd (router_put st i b)))"
proof (cases "validationResult (runChains chains_put (incoming [(''id'', i)] b)) = []")
  case True
  from router_put_valid [OF True, of st] obtain q a where
    q: "0 < q" "jsString (fieldOf b ''name'') \<noteq> []"
    and r: "router_put st i b =
               (case rowOf st i of
                  None \<Rightarrow> (Response 404 (Error ''Producto no encontrado''),
                            st\<lparr>calls := calls st @ [FindByPk i]\<rparr>)
                | Some product \<Rightarrow>
                    (Response 200 (Data (DProduct
                       (product\<lparr>name := jsString (fieldOf b ''name''), price := q,
                          availability := a\<rparr>))),
                     st\<lparr>rows := writeRow
                          (product\<lparr>name := jsString (fieldOf b ''name''), price := q,
                             availability := a\<rparr>)
                          (writeRow
                             (product\<lparr>name := jsString (fieldOf b ''name''), price := q,
                                availability := a\<rparr>) (rows st)),
                        calls := calls st @
                          [FindByPk i, Update (product_id product), Save (product_id product)]\<rparr>))"
    by blast
  show ?thesis
  proof (cases "rowOf st i")
    case None
    with r assms show ?thesis by simp
  next
    case (Some product)
    have "validRow (product\<lparr>name := jsString (fieldOf b ''name''), price := q,
                          availability := a\<rparr>)"
      using q by (simp add: validRow_def)
    with r Some assms show ?thesis
      by (simp add: validRow_writeRow)
  qed
next
  case False
  then show ?thesis
    using assms by (simp add: router_put_def route_incoming)
qed

lemma router_patch_validRow:
  assumes "list_all validRow (rows st)"
  shows "list_all validRow (rows (snd (router_patch st i)))"
proof (cases "rowOf st i")
  case None
  with assms show ?thesis by (simp add: router_patch_eq)
next
  case (Some product)
  with assms have "validRow product" by (rule validRow_rowOf)
  then have "validRow (product\<lparr>availability := \<not> availability product\<rparr>)"
    by (simp add: validRow_def)
  with assms Some show ?thesis
    by (simp add: router_patch_eq validRow_writeRow)
qed

lemma router_delete_validRow:
  assumes "list_all validRow (rows st)"
  shows "list_all validRow (rows (snd (router_delete st i)))"
  using assms by (simp add: router_delete_eq list_all_iff split: option.splits)

lemma router_validRow:
  assumes "list_all validRow (rows st)"
  shows "list_all validRow (rows (snd (router st c)))"
  using assms
  by (cases c)
    (simp_all add: router_get_rows router_get_id_rows router_post_validRow router_put_validRow
      router_patch_validRow router_delete_validRow)

lemma serve_validRow:
  assumes "list_all validRow (rows st)"
  shows "list_all validRow (rows (serve st cs))"
  using assms
proof (induction cs arbitrary: st)
  case Nil
  then show ?case by (simp add: serve_def)
next
  case (Cons c cs)
  have "serve st (c # cs) = serve (snd (router st c)) cs"
    by (simp add: serve_def)
  with Cons router_validRow show ?case by simp
qed

text \<open>
  C7, as stated, fails on the name: a create request whose name is two spaces passes
  the validation, is answered 201, and the row is stored with this whitespace-only
  name.
\<close>

theorem blank_name_counterexample:
  "router_post emptyTable [(''name'', JStr ''  ''), (''price'', JNum 5 0)] =
     (Response 201 (Data (DProduct
        \<lparr>product_id = 1, name = ''  '', price = 5, availability = True\<rparr>)),
      \<lparr>rows = [\<lparr>product_id = 1, name = ''  '', price = 5, availability = True\<rparr>],
       nextId = 2, calls = [Create]\<rparr>)
   \<and> blank ''  ''"
  by code_simp

text \<open>
  C7, as amended. From a table whose rows all have a price greater than 0 and a
  non-empty name (the empty table is one), every sequence of API calls leads to such a
  table; in particular a create and a replace request keep it so, whatever the body.
\<close>

theorem rows_valid:
  assumes "list_all validRow (rows st)"
  shows "list_all validRow (rows (serve st cs))
       \<and> list_all validRow (rows (snd (router_post st b)))
       \<and> list_all validRow (rows (snd (router_put st i b)))"
  using assms serve_validRow router_post_validRow router_put_validRow by blast

theorem rows_valid_witness:
  "list_all validRow (rows (serve emptyTable
     [CreateProduct [(''name'', JStr ''Mouse''), (''price'', JNum 50 0)],
      UpdateAvailability ''1'']))"
  using rows_valid [of emptyTable
     "[CreateProduct [(''name'', JStr ''Mouse''), (''price'', JNum 50 0)],
       UpdateAvailability ''1'']"]
  by (simp add: emptyTable_def)

end
